theory Spec2Isabelle
  imports Complex_Main "HOL-Library.Log_Nat"
begin

section \<open>Data model\<close>

text \<open>
  The entities of \<^verbatim>\<open>types.ts\<close> as the code of \<^verbatim>\<open>useGolfData.ts\<close> and of the
  caddie service reads them. Numeric fields (\<^verbatim>\<open>number\<close> in the source) hold integers:
  hole numbers, pars, yardages and scores. A field the source treats as optional
  (\<^verbatim>\<open>hole.notes\<close>, \<^verbatim>\<open>prevData.playerProfile\<close>) is an \<open>option\<close>; \<open>None\<close> is the
  absent (undefined) field.
\<close>

record HolePerformance =
  perf_holeNumber :: int
  score :: int

record Message =
  sender :: string
  msg_text :: string

record Round =
  date :: string
  conditions :: string
  conversation :: "Message list"
  holeByHole :: "HolePerformance list"

record Hole =
  holeNumber :: int
  par :: int
  yardage :: int
  hole_notes :: "string list option"

record Course =
  course_id :: string
  name :: string
  holes :: "Hole list"
  roundHistory :: "Round list"

record PlayerProfile =
  tendencies :: "string list"

record GolfData =
  courses :: "Course list"
  playerProfile :: "PlayerProfile option"

section \<open>The data provider\<close>

subsection \<open>Array helpers of the host language\<close>

text \<open>
  \<^verbatim>\<open>Array.prototype.findIndex\<close>: the index of the first element satisfying the
  predicate, \<open>-1\<close> when there is none. \<^verbatim>\<open>Array.prototype.find\<close>: that element, or
  undefined.
\<close>

fun findIndex :: "('a \<Rightarrow> bool) \<Rightarrow> 'a list \<Rightarrow> int" where
  "findIndex p [] = - 1"
| "findIndex p (x # xs) =
     (if p x then 0
      else (let i = findIndex p xs in if i > - 1 then i + 1 else - 1))"

fun find_first :: "('a \<Rightarrow> bool) \<Rightarrow> 'a list \<Rightarrow> 'a option" where
  "find_first p [] = None"
| "find_first p (x # xs) = (if p x then Some x else find_first p xs)"

subsection \<open>Errors and completions\<close>

text \<open>
  The errors the code can meet, and how a call completes: it returns a value or it
  throws. A \<^verbatim>\<open>try\<close> block is modelled by the value or error of its body (a sum,
  \<open>Inl\<close> the error) and the \<^verbatim>\<open>catch\<close> clause by the case distinction on it.
\<close>

datatype js_error = StorageError | BackendError | TypeError | SyntaxError

datatype 'a completion = Returns 'a | Throws js_error

subsection \<open>The persisted document\<close>

text \<open>
  \<^verbatim>\<open>useLocalStorage\<close> reads the document once, when the state is created, and writes it
  back on every \<^verbatim>\<open>setValue\<close>. What the store and the JSON codec do is the environment's
  answer, given here as a value: \<^verbatim>\<open>getItem\<close> throws, returns null, returns the empty
  string (falsy, so never parsed), returns text on which \<^verbatim>\<open>JSON.parse\<close> throws, or
  returns text that parses to a document, which the source takes to be of the type
  \<^verbatim>\<open>T\<close> without a check.
\<close>

datatype 'a read_outcome =
    GetItemThrows
  | ItemNull
  | ItemEmpty
  | ItemUnparsable
  | ItemParsed 'a

text \<open>The body of the \<^verbatim>\<open>try\<close> block of the initialiser.\<close>

definition read_stored :: "'a read_outcome \<Rightarrow> 'a \<Rightarrow> js_error + 'a" where
  "read_stored item initialValue =
     (case item of
        GetItemThrows \<Rightarrow> Inl StorageError
      | ItemNull \<Rightarrow> Inr initialValue
      | ItemEmpty \<Rightarrow> Inr initialValue
      | ItemUnparsable \<Rightarrow> Inl SyntaxError
      | ItemParsed v \<Rightarrow> Inr v)"

record 'a initial_state =
  storedValue :: 'a
  read_errors_logged :: "js_error list"

definition useLocalStorage_init :: "'a read_outcome \<Rightarrow> 'a \<Rightarrow> 'a initial_state completion" where
  "useLocalStorage_init item initialValue =
     (case read_stored item initialValue of
        Inr v \<Rightarrow> Returns \<lparr>storedValue = v, read_errors_logged = []\<rparr>
      | Inl e \<Rightarrow> Returns \<lparr>storedValue = initialValue, read_errors_logged = [e]\<rparr>)"

text \<open>
  \<^verbatim>\<open>React.SetStateAction\<close>: a value, or a function of the previous value. In
  \<^verbatim>\<open>setValue\<close> the new value is computed and put in memory (\<^verbatim>\<open>setStoredValue\<close>) before
  \<^verbatim>\<open>setItem\<close> is called, so a throwing \<^verbatim>\<open>setItem\<close> finds the memory already updated.
  The result holds the value now in memory, the document written when the write went
  through, and the errors the \<^verbatim>\<open>catch\<close> clause logged.
\<close>

datatype 'a set_state_action = Value 'a | Updater "'a \<Rightarrow> 'a"

record 'a set_result =
  new_storedValue :: 'a
  written :: "'a option"
  write_errors_logged :: "js_error list"

definition setItem :: "bool \<Rightarrow> 'a \<Rightarrow> js_error + 'a" where
  "setItem setItem_throws valueToStore =
     (if setItem_throws then Inl StorageError else Inr valueToStore)"

definition setValue :: "bool \<Rightarrow> 'a \<Rightarrow> 'a set_state_action \<Rightarrow> 'a set_result completion" where
  "setValue setItem_throws prev action =
     (let valueToStore = (case action of Updater f \<Rightarrow> f prev | Value v \<Rightarrow> v)
      in case setItem setItem_throws valueToStore of
           Inr doc \<Rightarrow>
             Returns \<lparr>new_storedValue = valueToStore, written = Some doc,
                      write_errors_logged = []\<rparr>
         | Inl e \<Rightarrow>
             Returns \<lparr>new_storedValue = valueToStore, written = None,
                      write_errors_logged = [e]\<rparr>)"

definition initialGolfData :: GolfData where
  "initialGolfData = \<lparr>courses = [], playerProfile = Some \<lparr>tendencies = []\<rparr>\<rparr>"

definition GolfDataProvider_init :: "GolfData read_outcome \<Rightarrow> GolfData initial_state completion" where
  "GolfDataProvider_init item = useLocalStorage_init item initialGolfData"

subsection \<open>State updaters\<close>

text \<open>
  Each mutator of \<^verbatim>\<open>GolfDataProvider\<close> hands \<^verbatim>\<open>setGolfData\<close> a function from the
  previous document to the next one. These are those functions, with the document
  passed explicitly.
\<close>

definition addCourse_updater :: "Course \<Rightarrow> GolfData \<Rightarrow> GolfData" where
  "addCourse_updater course prevData = prevData\<lparr>courses := courses prevData @ [course]\<rparr>"

definition saveRound_updater :: "string \<Rightarrow> Round \<Rightarrow> GolfData \<Rightarrow> GolfData" where
  "saveRound_updater courseId rnd prevData =
     (let updatedCourses =
        map (\<lambda>course.
               if course_id course = courseId then
                 (let roundIndex = findIndex (\<lambda>r. date r = date rnd) (roundHistory course);
                      newRoundHistory =
                        (if roundIndex > - 1
                         then (roundHistory course)[nat roundIndex := rnd]
                         else roundHistory course @ [rnd])
                  in course\<lparr>roundHistory := newRoundHistory\<rparr>)
               else course)
            (courses prevData)
      in prevData\<lparr>courses := updatedCourses\<rparr>)"


definition addPlayerTendency_updater :: "string \<Rightarrow> GolfData \<Rightarrow> GolfData" where
  "addPlayerTendency_updater tendency prevData =
     (let profile = (case playerProfile prevData of
                       None \<Rightarrow> \<lparr>tendencies = []\<rparr>
                     | Some p \<Rightarrow> p)
      in if tendency \<in> set (tendencies profile) then prevData
         else (let newTendencies = tendencies profile @ [tendency]
               in prevData\<lparr>playerProfile := Some (profile\<lparr>tendencies := newTendencies\<rparr>)\<rparr>))"

text \<open>
  The mutators themselves: \<^verbatim>\<open>setGolfData\<close> is the \<^verbatim>\<open>setValue\<close> of the hook, applied
  to the document in memory. The first argument says whether the write to the store
  throws. A later call is made on the \<open>new_storedValue\<close> of the earlier one (the
  component has rendered again in between).
\<close>

definition addCourse :: "bool \<Rightarrow> Course \<Rightarrow> GolfData \<Rightarrow> GolfData set_result completion" where
  "addCourse setItem_throws course golfData =
     setValue setItem_throws golfData (Updater (addCourse_updater course))"

definition saveRound ::
  "bool \<Rightarrow> string \<Rightarrow> Round \<Rightarrow> GolfData \<Rightarrow> GolfData set_result completion" where
  "saveRound setItem_throws courseId rnd golfData =
     setValue setItem_throws golfData (Updater (saveRound_updater courseId rnd))"


definition addPlayerTendency ::
  "bool \<Rightarrow> string \<Rightarrow> GolfData \<Rightarrow> GolfData set_result completion" where
  "addPlayerTendency setItem_throws tendency golfData =
     setValue setItem_throws golfData (Updater (addPlayerTendency_updater tendency))"

definition getCourseById :: "GolfData \<Rightarrow> string \<Rightarrow> Course option" where
  "getCourseById golfData courseId = find_first (\<lambda>c. course_id c = courseId) (courses golfData)"

text \<open>The profile the provider exposes: \<^verbatim>\<open>golfData.playerProfile || { tendencies: [] }\<close>.\<close>

definition exposedProfile :: "GolfData \<Rightarrow> PlayerProfile" where
  "exposedProfile golfData =
     (case playerProfile golfData of None \<Rightarrow> \<lparr>tendencies = []\<rparr> | Some p \<Rightarrow> p)"

subsection \<open>The provider between renders\<close>

text \<open>
  \<^verbatim>\<open>setValue\<close> is a closure of one render: the \<^verbatim>\<open>storedValue\<close> it applies an updater to
  is the document that render saw, while \<^verbatim>\<open>setStoredValue\<close> sets the document of the
  next render. The state of the provider is therefore three documents: the one the
  current render saw, the one last given to \<^verbatim>\<open>setStoredValue\<close>, and the one last
  written to the store (\<open>None\<close> while this hook has written nothing). A call of a
  mutator computes from the first and replaces the second and, when the write goes
  through, the third; a render makes the second the first.
\<close>

record 'a provider_state =
  rendered :: 'a
  pending :: 'a
  stored :: "'a option"

definition commit ::
  "'a provider_state \<Rightarrow> 'a set_result completion \<Rightarrow> 'a provider_state completion" where
  "commit st outcome =
     (case outcome of
        Returns res \<Rightarrow>
          Returns (st\<lparr>pending := new_storedValue res,
                      stored := (case written res of Some doc \<Rightarrow> Some doc | None \<Rightarrow> stored st)\<rparr>)
      | Throws e \<Rightarrow> Throws e)"


definition call_addCourse ::
  "bool \<Rightarrow> Course \<Rightarrow> GolfData provider_state \<Rightarrow> GolfData provider_state completion" where
  "call_addCourse setItem_throws course st =
     commit st (addCourse setItem_throws course (rendered st))"




section \<open>The caddie service\<close>

subsection \<open>Numbers as text\<close>

text \<open>
  The decimal digits of a natural number, and \<^verbatim>\<open>Number.prototype.toString\<close> on an
  integer (below \<open>10\<^sup>2\<^sup>1\<close> in magnitude, where the host language prints plain digits).
\<close>

definition digit_char :: "nat \<Rightarrow> char" where
  "digit_char d = ''0123456789'' ! d"

fun digits :: "nat \<Rightarrow> string" where
  "digits n = (if n < 10 then [digit_char n] else digits (n div 10) @ [digit_char (n mod 10)])"

declare digits.simps [simp del]

definition number_toString :: "int \<Rightarrow> string" where
  "number_toString i = (if i < 0 then ''-'' @ digits (nat (- i)) else digits (nat i))"

text \<open>
  Division of two integers in binary64 arithmetic, for operands that binary64 holds
  exactly (magnitude at most \<open>2\<^sup>5\<^sup>3\<close>) and a nonzero divisor: the exact quotient, rounded
  to a 53-bit significand, ties to even. \<open>k\<close> is the scale at which the quotient lies in
  \<open>[2\<^sup>5\<^sup>2, 2\<^sup>5\<^sup>3)\<close>; the result is given by its exact rational value.
\<close>

definition round_half_even :: "rat \<Rightarrow> int" where
  "round_half_even x =
     (let f = \<lfloor>x\<rfloor>; d = x - of_int f
      in if d < 1 / 2 then f else if 1 / 2 < d then f + 1 else if even f then f else f + 1)"

definition double_div :: "int \<Rightarrow> int \<Rightarrow> rat" where
  "double_div a b =
     (if a = 0 then 0
      else (let p = \<bar>a\<bar>; q = \<bar>b\<bar>;
                x = of_int p / of_int q;
                k0 = 53 - bitlen p + bitlen q;
                k = (if 2 ^ 53 \<le> x * 2 powi k0 then k0 - 1 else k0)
            in of_int (sgn a * sgn b) * (of_int (round_half_even (x * 2 powi k)) / 2 powi k)))"

text \<open>
  \<^verbatim>\<open>Number.prototype.toFixed(f)\<close> on a finite value below \<open>10\<^sup>2\<^sup>1\<close> in magnitude, as the
  language standard words it: the sign is split off; \<open>n\<close> is the integer for which
  \<open>n / 10\<^sup>f - x\<close> is closest to zero, the larger one when there are two; its digits are
  padded with zeros to \<open>f + 1\<close> places and the point is put before the last \<open>f\<close>.
\<close>

definition toFixed_n :: "nat \<Rightarrow> rat \<Rightarrow> nat" where
  "toFixed_n f x = nat \<lfloor>x * 10 ^ f + 1 / 2\<rfloor>"

definition toFixed_digits :: "nat \<Rightarrow> bool \<Rightarrow> nat \<Rightarrow> string" where
  "toFixed_digits f negative n =
     (let s = (if negative then ''-'' else []);
          m = digits n;
          m' = (if f \<noteq> 0 then
                  (let m1 = (if length m \<le> f
                             then replicate (f + 1 - length m) (CHR ''0'') @ m else m);
                       k = length m1
                   in take (k - f) m1 @ ''.'' @ drop (k - f) m1)
                else m)
      in s @ m')"

definition toFixed :: "nat \<Rightarrow> rat \<Rightarrow> string" where
  "toFixed f x = toFixed_digits f (x < 0) (toFixed_n f \<bar>x\<bar>)"

text \<open>\<^verbatim>\<open>Array.prototype.join\<close> on strings.\<close>

fun join :: "string \<Rightarrow> string list \<Rightarrow> string" where
  "join sep [] = []"
| "join sep [x] = x"
| "join sep (x # y # ys) = x @ sep @ join sep (y # ys)"

subsection \<open>The system prompt\<close>

definition nl :: string where
  "nl = [CHR 0x0A]"

definition dq :: string where
  "dq = [CHR 0x22]"

text \<open>The fixed text of the template before the first and after the last substitution.\<close>

definition prompt_intro :: string where
  "prompt_intro =
     ''You are JP, a professional AI golf caddie. Your personality is supportive, strategic, observant, and always conversational. Your entire existence is based on natural dialogue with a player.'' @ nl @
     nl @
     ''    **Your Conversational Philosophy (Non-Negotiable):**'' @ nl @
     ''    - **NEVER Ask for Structured Data:** You are not a data entry bot. Never ask '' @ dq @ ''What club did you use?'' @ dq @ '' or '' @ dq @ ''What was the outcome?'' @ dq @ ''. You must learn everything organically from the player's natural conversation.'' @ nl @
     ''    - **Be a Conversational Partner:** Your goal is to have a dialogue that feels like walking 18 holes together. Respond to what the player says, ask open-ended questions, and offer thoughts like a real caddie.'' @ nl @
     ''    - **Listen and Learn:** Actively listen to the player's stories, complaints, and observations to build your memory. A comment like '' @ dq @ ''I always end up in that right bunker'' @ dq @ '' is a crucial piece of data for you.'' @ nl @
     ''    - **Reference Your Memory:** When relevant, explicitly mention that you are drawing from past rounds, historical data, or learned notes (e.g., 'I remember you said...', 'Based on your 5 previous rounds here...'). This builds the player's trust in your memory.'' @ nl @
     nl @
     ''    **Current Context:**'' @ nl @
     ''    - Course: ''"

definition prompt_outro :: string where
  "prompt_outro =
     nl @
     nl @
     ''    **Example Interactions (Follow this style):**'' @ nl @
     ''    - Player: '' @ dq @ ''Man, I'm standing over this 150-yard shot and there's water short.'' @ dq @ nl @
     ''    - You: '' @ dq @ ''I remember you mentioned you've been pulling your 7-iron a bit when you're nervous. How's this shot feel?'' @ dq @ nl @
     ''    - Player: '' @ dq @ ''Yeah, definitely feeling that. Maybe I'll take a smooth 6.'' @ dq @ nl @
     ''    - You (Internal thought -> extract nothing): '' @ dq @ ''Sounds like a confident play. Let's commit to it.'' @ dq @ nl @
     ''    - Player: '' @ dq @ ''This green is so fast today, way faster than usual.'' @ dq @ nl @
     ''    - You (Internal thought -> extract 'courseNote'): '' @ dq @ ''Good to know, I'll add that to my notes for this hole. We'll have to adjust our strategy on the approaches then.'' @ dq @ nl @
     nl @
     ''    **Your Task:**'' @ nl @
     ''    1.  Read the entire conversation history to understand the context.'' @ nl @
     ''    2.  Provide a natural, concise, conversational response to the user's LATEST message based on your philosophy and the current context.'' @ nl @
     ''    3.  Analyze the user's LATEST message for new, explicitly stated information to learn from. This could be a shot detail, a score, an observation about the course, or a personal tendency.'' @ nl @
     ''    4.  Return a JSON object containing your `conversationalResponse`, any `extractedData`, and a suggested `audioCue`.'' @ nl @
     ''    5.  Be CONSERVATIVE with data extraction. Only extract what is clearly stated. If they say '' @ dq @ ''Bad shot'' @ dq @ '', do not extract anything. If they say '' @ dq @ ''Hit my 7-iron into the sand'' @ dq @ '', extract club: '7-Iron' and outcome: 'Bunker'.''"

text \<open>
  The local constants of \<^verbatim>\<open>buildSystemPrompt\<close>. \<^verbatim>\<open>relevantHistory\<close> maps every round
  to the first entry of its \<^verbatim>\<open>holeByHole\<close> with the hole's number and drops the rounds
  that have none. The scores are summed in the integers, which is what binary64 addition
  gives while the magnitudes stay within \<open>2\<^sup>5\<^sup>3\<close>; the division is the binary64 one. In
  \<^verbatim>\<open>holeNotes\<close> the test is the truthiness of \<^verbatim>\<open>currentHole.notes\<close>: an absent list is
  falsy, every array is truthy, the empty one included.
\<close>

definition relevantHistory :: "Course \<Rightarrow> Hole \<Rightarrow> HolePerformance list" where
  "relevantHistory course currentHole =
     (let found = map (\<lambda>r. find_first (\<lambda>h. perf_holeNumber h = holeNumber currentHole)
                                        (holeByHole r))
                      (roundHistory course)
      in [h. Some h \<leftarrow> found])"

definition historySummary :: "HolePerformance list \<Rightarrow> string" where
  "historySummary relevant =
     (if length relevant > 0 then
        (let avgScore = double_div (foldl (\<lambda>acc h. acc + score h) 0 relevant)
                                   (int (length relevant))
         in ''Player has played this hole '' @ digits (length relevant) @
            '' times with an average score of '' @ toFixed 2 avgScore @ ''.'')
      else ''No previous history on this hole.'')"

definition holeNotes :: "Hole \<Rightarrow> string" where
  "holeNotes currentHole =
     (case hole_notes currentHole of
        Some ns \<Rightarrow> nl @ ''    - Your organic notes on this hole: '' @ join '', '' ns
      | None \<Rightarrow> [])"

definition playerTendencies :: "PlayerProfile \<Rightarrow> string" where
  "playerTendencies profile =
     (if length (tendencies profile) > 0
      then nl @ ''    - General Player Tendencies: '' @ join '', '' (tendencies profile)
      else [])"

definition buildSystemPrompt :: "Course \<Rightarrow> Hole \<Rightarrow> Round \<Rightarrow> PlayerProfile \<Rightarrow> string" where
  "buildSystemPrompt course currentHole rnd profile =
     prompt_intro @ name course @ nl @
     ''    - Currently on: Hole #'' @ number_toString (holeNumber currentHole) @
     '' (Par '' @ number_toString (par currentHole) @ '', '' @
     number_toString (yardage currentHole) @ '' yds)'' @ nl @
     ''    - Historical Performance on this hole: '' @
     historySummary (relevantHistory course currentHole) @ holeNotes currentHole @ nl @
     ''    - Weather: '' @ conditions rnd @ playerTendencies profile @
     prompt_outro"

subsection \<open>The reply contract\<close>

text \<open>
  A JSON value, as \<^verbatim>\<open>JSON.parse\<close> returns it, and the schema language of the backend's
  client library as far as \<^verbatim>\<open>responseSchema\<close> uses it: a type, an optional
  description, an optional nullable flag and, for an object, its properties. The schema
  lists no required property.
\<close>

datatype json =
    JNull
  | JBool bool
  | JNumber rat
  | JString string
  | JArray "json list"
  | JObject "(string \<times> json) list"

datatype schema_type = STRING | INTEGER | OBJECT

datatype schema =
  Schema (schema_type: schema_type) (description: "string option") (nullable: "bool option")
         (properties: "(string \<times> schema) list")

definition responseSchema :: schema where
  "responseSchema =
     Schema OBJECT None None
       [(''conversationalResponse'',
           Schema STRING
             (Some ''JP's natural, conversational response to the user. It should be supportive, strategic, and observant, like a real caddie.'')
             None []),
        (''extractedData'',
           Schema OBJECT
             (Some ''Structured data extracted from the user's latest message. Only populate fields if the user explicitly mentions them. Be conservative.'')
             (Some True)
             [(''holeNumber'',
                 Schema INTEGER (Some ''The hole number the user is talking about.'') (Some True) []),
              (''shotNumber'',
                 Schema INTEGER (Some ''The shot number on the current hole.'') (Some True) []),
              (''club'',
                 Schema STRING (Some ''The club used for a shot.'') (Some True) []),
              (''outcome'',
                 Schema STRING
                   (Some ''The outcome of a shot (e.g., 'Fairway', 'Green', 'Bunker').'')
                   (Some True) []),
              (''scoreOnHole'',
                 Schema INTEGER (Some ''The final score for a specific hole.'') (Some True) []),
              (''courseNote'',
                 Schema STRING
                   (Some ''A new insight or feature about the current hole learned from the user's conversation (e.g., 'The green is very fast today', 'The right bunker is a magnet').'')
                   (Some True) []),
              (''playerTendency'',
                 Schema STRING
                   (Some ''A new insight about the player's general game, habits, or mental state (e.g., 'Tends to pull 7-iron left when nervous', 'Confidence is high with the driver today').'')
                   (Some True) [])]),
        (''audioCue'',
           Schema STRING
             (Some ''Suggest an audio cue to play based on the context. Options: 'discovery', 'update', 'memory', 'achievement', 'log', 'none'. Use 'discovery' for new course notes, 'update' for new player tendencies, and 'log' for shots/scores.'')
             (Some True) [])]"

text \<open>
  A value has the shape of a schema when it is null and the schema is nullable, or it has
  the schema's type and, for an object, every listed property that is present has the
  shape of that property's schema.
\<close>

fun conforms :: "schema \<Rightarrow> json \<Rightarrow> bool" where
  "conforms (Schema ty d nullable_flag props) v =
     (if v = JNull then nullable_flag = Some True
      else (case ty of
              STRING \<Rightarrow> (case v of JString s \<Rightarrow> True | _ \<Rightarrow> False)
            | INTEGER \<Rightarrow> (case v of JNumber r \<Rightarrow> of_int \<lfloor>r\<rfloor> = r | _ \<Rightarrow> False)
            | OBJECT \<Rightarrow>
                (case v of
                   JObject members \<Rightarrow>
                     list_all (\<lambda>(k, s). case map_of members k of
                                           None \<Rightarrow> True
                                         | Some v' \<Rightarrow> conforms s v') props
                 | _ \<Rightarrow> False)))"

text \<open>
  The reply object the callers rely on: an object with a \<^verbatim>\<open>conversationalResponse\<close> text
  that has the shape of \<^const>\<open>responseSchema\<close>.
\<close>

definition reply_shaped :: "json \<Rightarrow> bool" where
  "reply_shaped v =
     (case v of
        JObject members \<Rightarrow>
          (case map_of members ''conversationalResponse'' of
             Some (JString s) \<Rightarrow> conforms responseSchema v
           | _ \<Rightarrow> False)
      | _ \<Rightarrow> False)"

subsection \<open>The conversation bridge\<close>

text \<open>
  The module reads the credential once: \<^verbatim>\<open>process.env.API_KEY\<close> when \<^verbatim>\<open>process\<close> and
  its environment exist, undefined otherwise; the client exists when the key is truthy
  (present and not the empty string).
\<close>

datatype GoogleGenAI = GoogleGenAI (apiKey: string)

definition API_KEY :: "(string \<rightharpoonup> string) option \<Rightarrow> string option" where
  "API_KEY process_env = (case process_env of None \<Rightarrow> None | Some env \<Rightarrow> env ''API_KEY'')"

definition ai :: "(string \<rightharpoonup> string) option \<Rightarrow> GoogleGenAI option" where
  "ai process_env =
     (case API_KEY process_env of
        None \<Rightarrow> None
      | Some k \<Rightarrow> if k = [] then None else Some (GoogleGenAI k))"

text \<open>The request: each turn has a role and its parts, every part a text.\<close>

record Content =
  role :: string
  parts :: "string list"

record GenerateContentConfig =
  systemInstruction :: string
  responseMimeType :: string
  config_responseSchema :: schema
  temperature :: rat

record GenerateContentParameters =
  model :: string
  contents :: "Content list"
  config :: GenerateContentConfig

text \<open>
  What one call of \<^verbatim>\<open>generateContent\<close> and the two lines after it come to: the call
  rejects (transport failure, backend rejection); the response carries no text, so
  \<^verbatim>\<open>trim\<close> throws; the trimmed text is not JSON, so \<^verbatim>\<open>JSON.parse\<close> throws; or it
  parses to a value.
\<close>

datatype backend_outcome =
    CallRejected
  | TextUndefined
  | TextNotJson
  | TextJson json

datatype 'a promise = Fulfilled 'a | Rejected js_error

record bridge_result =
  requests :: "GenerateContentParameters list"
  errors_logged :: "js_error list"
  settled :: "json promise"

definition offline_reply :: json where
  "offline_reply =
     JObject
       [(''conversationalResponse'',
           JString ''JP is currently offline. The AI Caddie is not configured correctly. Please ensure the API key is set in the environment variables.''),
        (''extractedData'', JNull),
        (''audioCue'', JString ''none'')]"

definition fallback_reply :: json where
  "fallback_reply =
     JObject
       [(''conversationalResponse'',
           JString ''There was an issue contacting JP. I'm having trouble thinking right now.''),
        (''extractedData'', JNull),
        (''audioCue'', JString ''none'')]"

definition conversation_contents :: "Round \<Rightarrow> Content list" where
  "conversation_contents rnd =
     map (\<lambda>msg. \<lparr>role = (if sender msg = ''jp'' then ''model'' else ''user''),
                  parts = [msg_text msg]\<rparr>)
         (conversation rnd)"

text \<open>The body of the \<^verbatim>\<open>try\<close> block: the value it returns, or the error it throws.\<close>

definition try_generate :: "backend_outcome \<Rightarrow> js_error + json" where
  "try_generate outcome =
     (case outcome of
        CallRejected \<Rightarrow> Inl BackendError
      | TextUndefined \<Rightarrow> Inl TypeError
      | TextNotJson \<Rightarrow> Inl SyntaxError
      | TextJson v \<Rightarrow> Inr v)"

text \<open>The argument of \<^verbatim>\<open>generateContent\<close>, as the function puts it together.\<close>

definition generateContent_request ::
  "Course \<Rightarrow> Hole \<Rightarrow> Round \<Rightarrow> PlayerProfile \<Rightarrow> GenerateContentParameters" where
  "generateContent_request course currentHole rnd profile =
     (let systemInstruction' = buildSystemPrompt course currentHole rnd profile;
          contents' = conversation_contents rnd
      in \<lparr>model = ''gemini-2.5-flash'',
          contents = contents',
          config = \<lparr>systemInstruction = systemInstruction',
                     responseMimeType = ''application/json'',
                     config_responseSchema = responseSchema,
                     temperature = 8 / 10\<rparr>\<rparr>)"

text \<open>
  The function is \<^verbatim>\<open>async\<close>: its result is a promise, fulfilled by a \<^verbatim>\<open>return\<close> and
  rejected by an error that leaves the body. The result also lists the requests made to
  the backend and the errors logged.
\<close>

definition getJpConversationalResponse ::
  "GoogleGenAI option \<Rightarrow> (GenerateContentParameters \<Rightarrow> backend_outcome) \<Rightarrow>
   Course \<Rightarrow> Hole \<Rightarrow> Round \<Rightarrow> PlayerProfile \<Rightarrow> bridge_result" where
  "getJpConversationalResponse client backend course currentHole rnd profile =
     (case client of
        None \<Rightarrow> \<lparr>requests = [], errors_logged = [], settled = Fulfilled offline_reply\<rparr>
      | Some c \<Rightarrow>
          (let request = generateContent_request course currentHole rnd profile
           in (case try_generate (backend request) of
                 Inr v \<Rightarrow> \<lparr>requests = [request], errors_logged = [], settled = Fulfilled v\<rparr>
               | Inl e \<Rightarrow> \<lparr>requests = [request], errors_logged = [e],
                            settled = Fulfilled fallback_reply\<rparr>)))"

section \<open>Sample data\<close>

text \<open>
  The course of the end-to-end scenario: Pinehurst, hole 7 (par 4, 380 yards), played in
  two earlier rounds with scores 5 and 3.
\<close>

definition sample_hole :: Hole where
  "sample_hole = \<lparr>holeNumber = 7, par = 4, yardage = 380, hole_notes = None\<rparr>"

definition sample_round1 :: Round where
  "sample_round1 =
     \<lparr>date = ''2024-05-01'', conditions = ''Sunny'',
      conversation = [\<lparr>sender = ''player'', msg_text = ''This green is so fast today.''\<rparr>,
                      \<lparr>sender = ''jp'', msg_text = ''Good to know.''\<rparr>],
      holeByHole = [\<lparr>perf_holeNumber = 7, score = 5\<rparr>]\<rparr>"

definition sample_round2 :: Round where
  "sample_round2 =
     \<lparr>date = ''2024-05-08'', conditions = ''Windy'',
      conversation = [],
      holeByHole = [\<lparr>perf_holeNumber = 6, score = 4\<rparr>, \<lparr>perf_holeNumber = 7, score = 3\<rparr>]\<rparr>"

definition sample_course :: Course where
  "sample_course =
     \<lparr>course_id = ''pinehurst'', name = ''Pinehurst'', holes = [sample_hole],
      roundHistory = [sample_round1, sample_round2]\<rparr>"

text \<open>A course whose one round lists hole 7 twice.\<close>

definition replayed_round :: Round where
  "replayed_round =
     \<lparr>date = ''2024-05-15'', conditions = ''Calm'', conversation = [],
      holeByHole = [\<lparr>perf_holeNumber = 7, score = 5\<rparr>, \<lparr>perf_holeNumber = 7, score = 3\<rparr>]\<rparr>"

definition replayed_course :: Course where
  "replayed_course =
     \<lparr>course_id = ''pinehurst'', name = ''Pinehurst'', holes = [sample_hole],
      roundHistory = [replayed_round]\<rparr>"

definition sample_profile :: PlayerProfile where
  "sample_profile = \<lparr>tendencies = [''Pulls 7-iron left when nervous'']\<rparr>"

definition sample_data :: GolfData where
  "sample_data = \<lparr>courses = [sample_course], playerProfile = Some sample_profile\<rparr>"

text \<open>
  Two backends: one whose reply is JSON but not of the schema's shape, and one that
  rejects every call.
\<close>

definition off_schema_backend :: "GenerateContentParameters \<Rightarrow> backend_outcome" where
  "off_schema_backend request = TextJson (JObject [(''conversationalResponse'', JNumber 42)])"

definition rejecting_backend :: "GenerateContentParameters \<Rightarrow> backend_outcome" where
  "rejecting_backend request = CallRejected"




section \<open>Properties of the data provider\<close>

subsection \<open>Finding and replacing in a list\<close>

lemma findIndex_ge: "- 1 \<le> findIndex p xs"
  by (induction xs) (auto simp: Let_def)

lemma findIndex_none: "findIndex p xs > - 1 \<longleftrightarrow> (\<exists>x \<in> set xs. p x)"
  using findIndex_ge [of p] by (induction xs) (auto simp: Let_def)

lemma findIndex_lt: "findIndex p xs < int (length xs)"
  by (induction xs) (auto simp: Let_def)

lemma filter_update_found:
  "findIndex p xs > - 1 \<Longrightarrow> p y \<Longrightarrow> length (filter p xs) \<le> 1 \<Longrightarrow>
   filter p (xs[nat (findIndex p xs) := y]) = [y]"
proof (induction xs)
  case Nil
  then show ?case by simp
next
  case (Cons x xs)
  show ?case
  proof (cases "p x")
    case True
    with Cons.prems have "filter p xs = []" by simp
    with True Cons.prems show ?thesis by simp
  next
    case False
    with Cons.prems have found: "findIndex p xs > - 1" by (simp add: Let_def split: if_splits)
    from False Cons.prems have "length (filter p xs) \<le> 1" by simp
    with Cons.IH found Cons.prems have IH: "filter p (xs[nat (findIndex p xs) := y]) = [y]"
      by simp
    from found have "nat (findIndex p xs + 1) = Suc (nat (findIndex p xs))" by simp
    with False found IH show ?thesis by (simp add: Let_def)
  qed
qed

lemma filter_append_absent:
  "\<not> findIndex p xs > - 1 \<Longrightarrow> p y \<Longrightarrow> filter p (xs @ [y]) = [y]"
  by (simp add: findIndex_none filter_empty_conv)

lemma upsert_one:
  assumes "p y" and "length (filter p rs) \<le> 1"
  shows "filter p (if findIndex p rs > - 1 then rs[nat (findIndex p rs) := y] else rs @ [y])
         = [y]"
  using filter_update_found [of p rs y] filter_append_absent [of p rs y] assms
  by simp

subsection \<open>The hook\<close>

lemma setValue_Updater:
  "setValue w prev (Updater f) =
     Returns \<lparr>new_storedValue = f prev,
              written = (if w then None else Some (f prev)),
              write_errors_logged = (if w then [StorageError] else [])\<rparr>"
  by (simp add: setValue_def setItem_def Let_def)

lemma setValue_Value:
  "setValue w prev (Value v) =
     Returns \<lparr>new_storedValue = v,
              written = (if w then None else Some v),
              write_errors_logged = (if w then [StorageError] else [])\<rparr>"
  by (simp add: setValue_def setItem_def Let_def)

subsection \<open>Saving a round\<close>

lemma saveRound_updater_courses:
  "courses (saveRound_updater cid rnd s) =
     map (\<lambda>c. if course_id c = cid
               then c\<lparr>roundHistory :=
                        (if findIndex (\<lambda>r. date r = date rnd) (roundHistory c) > - 1
                         then (roundHistory c)[nat (findIndex (\<lambda>r. date r = date rnd) (roundHistory c)) := rnd]
                         else roundHistory c @ [rnd])\<rparr>
               else c)
         (courses s)"
  by (simp add: saveRound_updater_def Let_def)

lemma saveRound_updater_twice:
  fixes s :: GolfData
  assumes i: "i < length (courses s)"
    and cid: "course_id (courses s ! i) = cid"
    and one: "length (filter (\<lambda>r. date r = d) (roundHistory (courses s ! i))) \<le> 1"
    and d1: "date r1 = d" and d2: "date r2 = d"
    and s1_def: "s1 = saveRound_updater cid r1 s"
    and s2_def: "s2 = saveRound_updater cid r2 s1"
  shows "length (courses s2) = length (courses s) \<and>
         course_id (courses s2 ! i) = cid \<and>
         filter (\<lambda>r. date r = d) (roundHistory (courses s2 ! i)) = [r2] \<and>
         length (roundHistory (courses s2 ! i)) = length (roundHistory (courses s1 ! i))"
proof -
  define p :: "Round \<Rightarrow> bool" where "p = (\<lambda>r. date r = d)"
  define up where
    "up rnd rs = (if findIndex p rs > - 1 then rs[nat (findIndex p rs) := rnd] else rs @ [rnd])"
    for rnd rs
  define h where "h = roundHistory (courses s ! i)"
  have c1: "courses s1 =
      map (\<lambda>c. if course_id c = cid then c\<lparr>roundHistory := up r1 (roundHistory c)\<rparr> else c)
          (courses s)"
    unfolding s1_def saveRound_updater_courses d1 up_def [abs_def] p_def ..
  have c2: "courses s2 =
      map (\<lambda>c. if course_id c = cid then c\<lparr>roundHistory := up r2 (roundHistory c)\<rparr> else c)
          (courses s1)"
    unfolding s2_def saveRound_updater_courses d2 up_def [abs_def] p_def ..
  have len1: "length (courses s1) = length (courses s)" by (simp add: c1)
  have len2: "length (courses s2) = length (courses s)" by (simp add: c2 len1)
  have h1: "roundHistory (courses s1 ! i) = up r1 h"
    using i cid by (simp add: c1 h_def)
  have id1: "course_id (courses s1 ! i) = cid"
    using i cid by (simp add: c1)
  have h2: "roundHistory (courses s2 ! i) = up r2 (up r1 h)"
    using i len1 id1 h1 by (simp add: c2)
  have id2: "course_id (courses s2 ! i) = cid"
    using i len1 id1 by (simp add: c2)
  have f1: "filter p (up r1 h) = [r1]"
    unfolding up_def using one d1 by (intro upsert_one) (simp_all add: p_def h_def)
  then have "length (filter p (up r1 h)) \<le> 1" by simp
  moreover have "p r2" using d2 by (simp add: p_def)
  ultimately have "filter p (if findIndex p (up r1 h) > - 1
       then (up r1 h)[nat (findIndex p (up r1 h)) := r2] else up r1 h @ [r2]) = [r2]"
    by (intro upsert_one)
  then have f2: "filter p (up r2 (up r1 h)) = [r2]"
    by (simp only: up_def [of r2])
  have "r1 \<in> set (filter p (up r1 h))" by (simp add: f1)
  then have "\<exists>x \<in> set (up r1 h). p x" by auto
  then have "findIndex p (up r1 h) > - 1" by (simp only: findIndex_none)
  then have "length (if findIndex p (up r1 h) > - 1
       then (up r1 h)[nat (findIndex p (up r1 h)) := r2] else up r1 h @ [r2]) = length (up r1 h)"
    by simp
  then have l2: "length (up r2 (up r1 h)) = length (up r1 h)" by (simp only: up_def [of r2])
  show ?thesis
    using len2 id2 f2 l2 unfolding h1 h2 p_def by blast
qed

text \<open>
  C5. Round upsert replaces: when the history of a course holds at most one round of
  a date, saving two rounds of that date to the course, one call after the other, leaves
  exactly one round of that date in its history, the later one; both calls return, and
  the second does not lengthen the history.
\<close>

theorem saveRound_twice_one_entry:
  fixes s :: GolfData
  assumes "i < length (courses s)"
    and "course_id (courses s ! i) = cid"
    and "length (filter (\<lambda>r. date r = d) (roundHistory (courses s ! i))) \<le> 1"
    and "date r1 = d" and "date r2 = d"
  shows "\<exists>res1 res2.
           saveRound w1 cid r1 s = Returns res1 \<and>
           saveRound w2 cid r2 (new_storedValue res1) = Returns res2 \<and>
           length (courses (new_storedValue res2)) = length (courses s) \<and>
           course_id (courses (new_storedValue res2) ! i) = cid \<and>
           filter (\<lambda>r. date r = d) (roundHistory (courses (new_storedValue res2) ! i)) = [r2] \<and>
           length (roundHistory (courses (new_storedValue res2) ! i)) =
             length (roundHistory (courses (new_storedValue res1) ! i))"
proof -
  define s1 where "s1 = saveRound_updater cid r1 s"
  define s2 where "s2 = saveRound_updater cid r2 s1"
  define res1 where
    "res1 = \<lparr>new_storedValue = s1, written = (if w1 then None else Some s1),
             write_errors_logged = (if w1 then [StorageError] else [])\<rparr>"
  define res2 where
    "res2 = \<lparr>new_storedValue = s2, written = (if w2 then None else Some s2),
             write_errors_logged = (if w2 then [StorageError] else [])\<rparr>"
  have n1: "new_storedValue res1 = s1" and n2: "new_storedValue res2 = s2"
    by (simp_all add: res1_def res2_def)
  have r1: "saveRound w1 cid r1 s = Returns res1"
    by (simp add: saveRound_def setValue_Updater res1_def s1_def)
  have r2: "saveRound w2 cid r2 (new_storedValue res1) = Returns res2"
    by (simp add: saveRound_def setValue_Updater res2_def s2_def n1)
  from saveRound_updater_twice [OF assms s1_def s2_def] r1 r2 show ?thesis
    unfolding n1 [symmetric] n2 [symmetric] by blast
qed

theorem saveRound_twice_one_entry_witness:
  "(0::nat) < length (courses sample_data) \<and>
   course_id (courses sample_data ! 0) = ''pinehurst'' \<and>
   length (filter (\<lambda>r. date r = ''2024-05-08'') (roundHistory (courses sample_data ! 0))) \<le> 1 \<and>
   (\<exists>res1 res2.
      saveRound False ''pinehurst'' (sample_round2\<lparr>conditions := ''Calm''\<rparr>) sample_data
        = Returns res1 \<and>
      saveRound True ''pinehurst'' (sample_round2\<lparr>conditions := ''Rain''\<rparr>) (new_storedValue res1)
        = Returns res2 \<and>
      filter (\<lambda>r. date r = ''2024-05-08'') (roundHistory (courses (new_storedValue res2) ! 0))
        = [sample_round2\<lparr>conditions := ''Rain''\<rparr>])"
proof -
  have a: "(0::nat) < length (courses sample_data)"
    and b: "course_id (courses sample_data ! 0) = ''pinehurst''"
    and c: "length (filter (\<lambda>r. date r = ''2024-05-08'') (roundHistory (courses sample_data ! 0))) \<le> 1"
    by (simp_all add: sample_data_def sample_course_def sample_round1_def sample_round2_def)
  have d: "date (sample_round2\<lparr>conditions := ''Calm''\<rparr>) = ''2024-05-08''"
    "date (sample_round2\<lparr>conditions := ''Rain''\<rparr>) = ''2024-05-08''"
    by (simp_all add: sample_round2_def)
  from saveRound_twice_one_entry [OF a b c d, of False True] a b c show ?thesis
    by blast
qed

subsection \<open>Adding a tendency\<close>

lemma addPlayerTendency_updater_tendencies:
  "tendencies (exposedProfile (addPlayerTendency_updater t s)) =
     (if t \<in> set (tendencies (exposedProfile s)) then tendencies (exposedProfile s)
      else tendencies (exposedProfile s) @ [t])"
  by (simp add: addPlayerTendency_updater_def exposedProfile_def Let_def split: option.splits)

lemma distinct_count_list_one:
  "distinct xs \<Longrightarrow> x \<in> set xs \<Longrightarrow> count_list xs x = 1"
  by (induction xs) auto

lemma addPlayerTendency_updater_idem:
  "addPlayerTendency_updater t (addPlayerTendency_updater t s) = addPlayerTendency_updater t s"
  by (simp add: addPlayerTendency_updater_def Let_def split: option.splits)

lemma addPlayerTendency_updater_count:
  assumes "distinct (tendencies (exposedProfile s))"
  shows "count_list (tendencies (exposedProfile (addPlayerTendency_updater t s))) t = 1"
proof (cases "t \<in> set (tendencies (exposedProfile s))")
  case True
  with assms show ?thesis
    by (simp add: addPlayerTendency_updater_tendencies distinct_count_list_one)
next
  case False
  then show ?thesis
    by (simp add: addPlayerTendency_updater_tendencies count_list_0_iff)
qed

text \<open>
  C6. Tendency append is set-like: when the profile's tendencies hold no duplicate,
  adding the same text in two calls, one after the other, leaves exactly one occurrence
  of it; both calls return, and the second leaves the document as the first one left it.
\<close>

theorem addPlayerTendency_twice_once:
  assumes "distinct (tendencies (exposedProfile s))"
  shows "\<exists>res1 res2.
           addPlayerTendency w1 t s = Returns res1 \<and>
           addPlayerTendency w2 t (new_storedValue res1) = Returns res2 \<and>
           count_list (tendencies (exposedProfile (new_storedValue res2))) t = 1 \<and>
           new_storedValue res2 = new_storedValue res1"
proof -
  define s1 where "s1 = addPlayerTendency_updater t s"
  define res1 where
    "res1 = \<lparr>new_storedValue = s1, written = (if w1 then None else Some s1),
             write_errors_logged = (if w1 then [StorageError] else [])\<rparr>"
  define res2 where
    "res2 = \<lparr>new_storedValue = s1, written = (if w2 then None else Some s1),
             write_errors_logged = (if w2 then [StorageError] else [])\<rparr>"
  have n1: "new_storedValue res1 = s1" and n2: "new_storedValue res2 = s1"
    by (simp_all add: res1_def res2_def)
  have r1: "addPlayerTendency w1 t s = Returns res1"
    by (simp add: addPlayerTendency_def setValue_Updater res1_def s1_def)
  have r2: "addPlayerTendency w2 t (new_storedValue res1) = Returns res2"
    by (simp add: addPlayerTendency_def setValue_Updater res2_def n1 s1_def
        addPlayerTendency_updater_idem)
  have "count_list (tendencies (exposedProfile s1)) t = 1"
    unfolding s1_def by (rule addPlayerTendency_updater_count [OF assms])
  with r1 r2 n1 n2 show ?thesis by metis
qed

theorem addPlayerTendency_twice_once_witness:
  "distinct (tendencies (exposedProfile sample_data)) \<and>
   (\<exists>res1 res2.
      addPlayerTendency False ''Slow starter'' sample_data = Returns res1 \<and>
      addPlayerTendency False ''Slow starter'' (new_storedValue res1) = Returns res2 \<and>
      count_list (tendencies (exposedProfile (new_storedValue res2))) ''Slow starter'' = 1 \<and>
      new_storedValue res2 = new_storedValue res1) \<and>
   tendencies (exposedProfile (addPlayerTendency_updater ''Slow starter''
       (addPlayerTendency_updater ''Slow starter'' sample_data)))
     = [''Pulls 7-iron left when nervous'', ''Slow starter'']"
proof -
  have a: "distinct (tendencies (exposedProfile sample_data))"
    by (simp add: exposedProfile_def sample_data_def sample_profile_def)
  have b: "tendencies (exposedProfile (addPlayerTendency_updater ''Slow starter''
       (addPlayerTendency_updater ''Slow starter'' sample_data)))
     = [''Pulls 7-iron left when nervous'', ''Slow starter'']"
    by (simp add: addPlayerTendency_updater_tendencies)
       (simp add: exposedProfile_def sample_data_def sample_profile_def)
  from addPlayerTendency_twice_once [OF a, of False "''Slow starter''" False] a b
  show ?thesis by blast
qed

subsection \<open>Unknown keys\<close>









subsection \<open>Failures of the store\<close>

text \<open>
  C9. A failed read never crashes the provider: when \<^verbatim>\<open>getItem\<close> throws, the item is
  absent or empty, or its text does not parse, the initialiser returns and the provider
  starts from the initial document \<open>{courses: [], playerProfile: {tendencies: []}}\<close>. A
  failed write returns too: it leaves in memory the value being set and logs the error.
\<close>

theorem persistence_failures_contained:
  "GolfDataProvider_init GetItemThrows =
     Returns \<lparr>storedValue = \<lparr>courses = [], playerProfile = Some \<lparr>tendencies = []\<rparr>\<rparr>,
              read_errors_logged = [StorageError]\<rparr> \<and>
   GolfDataProvider_init ItemNull =
     Returns \<lparr>storedValue = \<lparr>courses = [], playerProfile = Some \<lparr>tendencies = []\<rparr>\<rparr>,
              read_errors_logged = []\<rparr> \<and>
   GolfDataProvider_init ItemEmpty =
     Returns \<lparr>storedValue = \<lparr>courses = [], playerProfile = Some \<lparr>tendencies = []\<rparr>\<rparr>,
              read_errors_logged = []\<rparr> \<and>
   GolfDataProvider_init ItemUnparsable =
     Returns \<lparr>storedValue = \<lparr>courses = [], playerProfile = Some \<lparr>tendencies = []\<rparr>\<rparr>,
              read_errors_logged = [SyntaxError]\<rparr> \<and>
   setValue True prev (Value v) =
     Returns \<lparr>new_storedValue = v, written = None, write_errors_logged = [StorageError]\<rparr> \<and>
   setValue True prev (Updater f) =
     Returns \<lparr>new_storedValue = f prev, written = None, write_errors_logged = [StorageError]\<rparr>"
  by (simp add: GolfDataProvider_init_def useLocalStorage_init_def read_stored_def
      initialGolfData_def setValue_Updater setValue_Value)

section \<open>Properties of the conversation bridge and the prompt\<close>

subsection \<open>The request\<close>

text \<open>
  C4. With no credential configured (the key undefined or empty), the bridge returns the
  fixed offline reply for every course, hole, round and profile, and makes no request to
  the backend.
\<close>

theorem no_credential_offline_reply:
  assumes "API_KEY process_env = None \<or> API_KEY process_env = Some []"
  shows "getJpConversationalResponse (ai process_env) backend course currentHole rnd profile =
           \<lparr>requests = [], errors_logged = [],
            settled = Fulfilled (JObject
              [(''conversationalResponse'',
                  JString ''JP is currently offline. The AI Caddie is not configured correctly. Please ensure the API key is set in the environment variables.''),
               (''extractedData'', JNull),
               (''audioCue'', JString ''none'')])\<rparr>"
  using assms by (auto simp: ai_def getJpConversationalResponse_def offline_reply_def)

theorem no_credential_offline_reply_witness:
  "API_KEY None = None \<and>
   requests (getJpConversationalResponse (ai None) off_schema_backend
               sample_course sample_hole sample_round1 sample_profile) = [] \<and>
   settled (getJpConversationalResponse (ai None) off_schema_backend
               sample_course sample_hole sample_round1 sample_profile) = Fulfilled offline_reply"
  using no_credential_offline_reply [of None off_schema_backend sample_course sample_hole
      sample_round1 sample_profile]
  by (simp add: API_KEY_def offline_reply_def)

text \<open>
  C7. With a client, the one request made carries the whole transcript: as many turns as
  messages, in the same order, a message of \<^verbatim>\<open>jp\<close> with role \<^verbatim>\<open>model\<close> and any other with
  role \<^verbatim>\<open>user\<close>, each turn's one part holding the message's text.
\<close>

theorem transcript_mapped_in_order:
  "requests (getJpConversationalResponse (Some client) backend course currentHole rnd profile)
     = [\<lparr>model = ''gemini-2.5-flash'',
         contents = conversation_contents rnd,
         config = \<lparr>systemInstruction = buildSystemPrompt course currentHole rnd profile,
                    responseMimeType = ''application/json'',
                    config_responseSchema = responseSchema,
                    temperature = 8 / 10\<rparr>\<rparr>] \<and>
   length (conversation_contents rnd) = length (conversation rnd) \<and>
   (\<forall>i < length (conversation rnd).
      role (conversation_contents rnd ! i) =
        (if sender (conversation rnd ! i) = ''jp'' then ''model'' else ''user'') \<and>
      parts (conversation_contents rnd ! i) = [msg_text (conversation rnd ! i)])"
  by (simp add: getJpConversationalResponse_def generateContent_request_def Let_def
      conversation_contents_def split: sum.splits)

theorem transcript_mapped_in_order_witness:
  "conversation_contents sample_round1 =
     [\<lparr>role = ''user'', parts = [''This green is so fast today.'']\<rparr>,
      \<lparr>role = ''model'', parts = [''Good to know.'']\<rparr>] \<and>
   map contents (requests (getJpConversationalResponse (Some (GoogleGenAI ''key''))
       rejecting_backend sample_course sample_hole sample_round1 sample_profile))
     = [[\<lparr>role = ''user'', parts = [''This green is so fast today.'']\<rparr>,
         \<lparr>role = ''model'', parts = [''Good to know.'']\<rparr>]]"
  using transcript_mapped_in_order [of "GoogleGenAI ''key''" rejecting_backend
      sample_course sample_hole sample_round1 sample_profile]
  by (simp add: conversation_contents_def sample_round1_def)

subsection \<open>The prompt\<close>

text \<open>
  C8. The prompt builder is deterministic: equal course, hole, round and profile give
  the same instruction text, character for character.
\<close>

theorem buildSystemPrompt_deterministic:
  assumes "course1 = course2" and "hole1 = hole2" and "rnd1 = rnd2" and "profile1 = profile2"
  shows "buildSystemPrompt course1 hole1 rnd1 profile1 = buildSystemPrompt course2 hole2 rnd2 profile2"
  using assms by simp

theorem buildSystemPrompt_deterministic_witness:
  "buildSystemPrompt sample_course sample_hole sample_round1 sample_profile =
   buildSystemPrompt
     \<lparr>course_id = ''pinehurst'', name = ''Pinehurst'', holes = [sample_hole],
      roundHistory = [sample_round1, sample_round2]\<rparr>
     \<lparr>holeNumber = 7, par = 4, yardage = 380, hole_notes = None\<rparr>
     sample_round1
     \<lparr>tendencies = [''Pulls 7-iron left when nervous'']\<rparr>"
  by (rule buildSystemPrompt_deterministic)
     (simp_all add: sample_course_def sample_hole_def sample_profile_def)

text \<open>
  C2. The notes section is left out when the hole has no notes field, but not when the
  field is the empty list: the heading is then rendered with nothing after it, and the
  prompt differs from the one without notes.
\<close>

theorem empty_notes_list_rendered:
  "holeNotes \<lparr>holeNumber = 7, par = 4, yardage = 380, hole_notes = Some []\<rparr>
     = nl @ ''    - Your organic notes on this hole: '' \<and>
   holeNotes \<lparr>holeNumber = 7, par = 4, yardage = 380, hole_notes = None\<rparr> = [] \<and>
   buildSystemPrompt sample_course \<lparr>holeNumber = 7, par = 4, yardage = 380, hole_notes = Some []\<rparr>
       sample_round1 sample_profile
     \<noteq> buildSystemPrompt sample_course \<lparr>holeNumber = 7, par = 4, yardage = 380, hole_notes = None\<rparr>
       sample_round1 sample_profile"
  by (simp add: holeNotes_def buildSystemPrompt_def relevantHistory_def nl_def)

lemma notes_absent_omitted: "hole_notes h = None \<Longrightarrow> holeNotes h = []"
  by (simp add: holeNotes_def)

lemma tendencies_empty_omitted: "tendencies p = [] \<Longrightarrow> playerTendencies p = []"
  by (simp add: playerTendencies_def)

subsection \<open>The reply\<close>

lemma reply_shaped_offline: "reply_shaped offline_reply"
  by (simp add: reply_shaped_def offline_reply_def responseSchema_def)

lemma reply_shaped_fallback: "reply_shaped fallback_reply"
  by (simp add: reply_shaped_def fallback_reply_def responseSchema_def)

text \<open>
  C1, as stated, fails: a reply that parses as JSON is returned as parsed. Here the
  backend answers with an object whose \<^verbatim>\<open>conversationalResponse\<close> is a number; the
  bridge returns that object, which has not the schema's shape and is not the fallback.
\<close>

theorem off_schema_reply_returned:
  "settled (getJpConversationalResponse (Some (GoogleGenAI ''key'')) off_schema_backend
              sample_course sample_hole sample_round1 sample_profile)
     = Fulfilled (JObject [(''conversationalResponse'', JNumber 42)]) \<and>
   \<not> reply_shaped (JObject [(''conversationalResponse'', JNumber 42)]) \<and>
   JObject [(''conversationalResponse'', JNumber 42)] \<noteq> fallback_reply"
  by (simp add: getJpConversationalResponse_def off_schema_backend_def try_generate_def
      reply_shaped_def fallback_reply_def Let_def)

text \<open>
  C1, amended. For every client, backend outcome and input, the promise of the bridge is
  fulfilled, never rejected: with the offline reply when there is no client; with the
  fixed fallback reply when the call is rejected, the response has no text or the text
  is not JSON; and with the parsed value itself, unchecked, when the text is JSON. The
  two fixed replies have the schema's shape.
\<close>

theorem bridge_settles_fulfilled:
  "settled (getJpConversationalResponse client backend course currentHole rnd profile) =
     Fulfilled
       (case client of
          None \<Rightarrow> offline_reply
        | Some c \<Rightarrow>
            (case backend (generateContent_request course currentHole rnd profile) of
               TextJson v \<Rightarrow> v
             | CallRejected \<Rightarrow> fallback_reply
             | TextUndefined \<Rightarrow> fallback_reply
             | TextNotJson \<Rightarrow> fallback_reply)) \<and>
   reply_shaped offline_reply \<and> reply_shaped fallback_reply"
  by (simp add: getJpConversationalResponse_def try_generate_def Let_def
      reply_shaped_offline reply_shaped_fallback
      split: option.splits backend_outcome.splits)

section \<open>Properties of the history summary\<close>

subsection \<open>Rounding in binary64 division and in the two-decimal rendering\<close>

text \<open>
  The significand of a quotient is rounded by at most half a unit; the scale chosen from
  the bit lengths puts the quotient at or above \<open>2\<^sup>5\<^sup>2\<close>; so the relative error of the
  division is at most \<open>2\<^sup>-\<^sup>5\<^sup>3\<close>. For a dividend of magnitude below \<open>2\<^sup>5\<^sup>3 / 200\<close>
  that error cannot move the quotient across a half-hundredth.
\<close>

lemma round_half_even_error: "\<bar>of_int (round_half_even y) - y\<bar> \<le> 1 / 2"
proof -
  define f where "f = \<lfloor>y\<rfloor>"
  define d where "d = y - of_int f"
  have d0: "0 \<le> d" and d1: "d < 1" unfolding d_def f_def by linarith+
  have y: "y = of_int f + d" by (simp add: d_def)
  consider "d < 1 / 2" | "1 / 2 < d" | "d = 1 / 2" by linarith
  then show ?thesis
  proof cases
    case 1
    then have "round_half_even y = f" by (simp add: round_half_even_def Let_def f_def d_def)
    with 1 d0 y show ?thesis by simp
  next
    case 2
    then have "round_half_even y = f + 1" by (simp add: round_half_even_def Let_def f_def d_def)
    with 2 d1 y show ?thesis by simp
  next
    case 3
    then have "round_half_even y = f \<or> round_half_even y = f + 1"
      by (simp add: round_half_even_def Let_def f_def d_def)
    with 3 y show ?thesis by auto
  qed
qed

lemma bitlen_scale_lower:
  fixes a b :: int
  assumes a: "0 < a" and b: "0 < b"
  shows "(2::rat) ^ 52 < of_int a / of_int b * 2 powi (53 - bitlen a + bitlen b)"
proof -
  define la where "la = nat (bitlen a - 1)"
  define lb where "lb = nat (bitlen b)"
  have ba: "1 \<le> bitlen a" using a by (simp add: bitlen_alt_def)
  have bb: "0 \<le> bitlen b" by (rule bitlen_nonneg)
  have k: "53 - bitlen a + bitlen b = 52 - int la + int lb"
    using ba bb by (simp add: la_def lb_def)
  from bitlen_bounds [OF a] have "(2::int) ^ la \<le> a" by (simp add: la_def)
  then have "(of_int ((2::int) ^ la) :: rat) \<le> of_int a" by (simp only: of_int_le_iff)
  then have A: "(2::rat) ^ la \<le> of_int a" by simp
  from bitlen_bounds [OF b] have "b < (2::int) ^ lb" by (simp add: lb_def)
  then have "(of_int b :: rat) < of_int ((2::int) ^ lb)" by (simp only: of_int_less_iff)
  then have B: "(of_int b :: rat) < 2 ^ lb" by simp
  have B0: "(0::rat) < of_int b" using b by simp
  have e: "(2::rat) powi (52 - int la + int lb) = 2 ^ 52 * 2 ^ lb / 2 ^ la"
    by (simp add: power_int_add power_int_diff)
  have "of_int b * (2::rat) ^ la < 2 ^ lb * of_int a"
    using A B B0 by (intro mult_less_le_imp_less) simp_all
  then have "(2::rat) ^ 52 * (of_int b * 2 ^ la) < 2 ^ 52 * (2 ^ lb * of_int a)"
    by simp
  then have "(2::rat) ^ 52 < of_int a / of_int b * (2 ^ 52 * 2 ^ lb / 2 ^ la)"
    using B0 by (simp add: field_simps)
  then show ?thesis by (simp only: k e)
qed

lemma double_div_pos:
  fixes a b :: int
  assumes a: "0 < a" and b: "0 < b"
  shows "\<bar>double_div a b - of_int a / of_int b\<bar> \<le> of_int a / of_int b / 2 ^ 53"
    and "0 < double_div a b"
proof -
  define x :: rat where "x = of_int a / of_int b"
  define k0 where "k0 = 53 - bitlen a + bitlen b"
  define k where "k = (if 2 ^ 53 \<le> x * 2 powi k0 then k0 - 1 else k0)"
  define pk :: rat where "pk = 2 powi k"
  define y where "y = x * pk"
  have x0: "0 < x" using a b by (simp add: x_def)
  have pk0: "0 < pk" by (simp add: pk_def)
  have dd: "double_div a b = of_int (round_half_even y) / pk"
    using a b by (simp add: double_div_def Let_def x_def k0_def k_def pk_def y_def)
  have low: "2 ^ 52 \<le> y"
  proof (cases "2 ^ 53 \<le> x * 2 powi k0")
    case True
    then have "k = k0 - 1" by (simp add: k_def)
    then have "pk = 2 powi k0 / 2" by (simp add: pk_def power_int_diff)
    then have "x * 2 powi k0 = 2 * (x * pk)" by simp
    with True have "(2::rat) ^ 53 \<le> 2 * y" by (simp only: y_def)
    then show ?thesis by simp
  next
    case False
    then have "k = k0" by (simp add: k_def)
    with bitlen_scale_lower [OF a b] show ?thesis
      by (simp add: y_def pk_def x_def k0_def)
  qed
  have r: "\<bar>of_int (round_half_even y) - y\<bar> \<le> 1 / 2" by (rule round_half_even_error)
  have "double_div a b - x = (of_int (round_half_even y) - y) / pk"
    using pk0 by (simp add: dd y_def field_simps)
  then have "\<bar>double_div a b - x\<bar> = \<bar>of_int (round_half_even y) - y\<bar> / pk"
    using pk0 by simp
  also have "\<dots> \<le> (1 / 2) / pk"
    using r pk0 by (intro divide_right_mono) simp_all
  also have "\<dots> \<le> x / 2 ^ 53"
  proof -
    define c :: rat where "c = 2 ^ 52"
    have c0: "0 < c" by (simp add: c_def)
    have c2: "(2::rat) ^ 53 = 2 * c" by (simp add: c_def)
    from low have "c \<le> x * pk" by (simp only: y_def c_def)
    then have "1 * (2 * c) \<le> x * (2 * pk)" by (simp add: algebra_simps)
    then have "1 / (2 * pk) \<le> x / (2 * c)"
      using pk0 c0 by (simp add: frac_le_eq pos_divide_le_eq pos_le_divide_eq algebra_simps)
    then show ?thesis by (simp only: c2)
  qed
  finally show "\<bar>double_div a b - of_int a / of_int b\<bar> \<le> of_int a / of_int b / 2 ^ 53"
    by (simp add: x_def)
  have "(1::rat) \<le> 2 ^ 52" by simp
  with low have "1 \<le> y" by linarith
  with r have "(0::rat) < of_int (round_half_even y)" by linarith
  then show "0 < double_div a b" using pk0 by (simp add: dd)
qed

lemma double_div_uminus:
  "double_div (- a) b = - double_div a b"
  by (simp add: double_div_def Let_def sgn_minus)

lemma toFixed_n_bounds:
  assumes "0 \<le> x"
  shows "of_nat (toFixed_n 2 x) \<le> x * 100 + 1 / 2" and "x * 100 + 1 / 2 < of_nat (toFixed_n 2 x) + 1"
proof -
  define f where "f = \<lfloor>x * 100 + 1 / 2\<rfloor>"
  have "0 \<le> x * 100 + 1 / 2" using assms by simp
  then have f0: "0 \<le> f" by (simp add: f_def)
  then have n: "(of_nat (toFixed_n 2 x) :: rat) = of_int f"
    by (simp add: toFixed_n_def f_def)
  show "of_nat (toFixed_n 2 x) \<le> x * 100 + 1 / 2"
    unfolding n f_def by linarith
  show "x * 100 + 1 / 2 < of_nat (toFixed_n 2 x) + 1"
    unfolding n f_def by linarith
qed

lemma mean_nearest_pos:
  fixes a b :: int
  assumes a: "0 < a" and b: "0 < b" and small: "200 * a < 2 ^ 53"
  shows "\<bar>of_nat (toFixed_n 2 (double_div a b)) - 100 * (of_int a / of_int b)\<bar> \<le> (1 / 2 :: rat)"
proof -
  define A :: rat where "A = of_int a"
  define B :: rat where "B = of_int b"
  define q where "q = double_div a b"
  define n where "n = toFixed_n 2 q"
  define N :: rat where "N = of_nat n"
  define c :: rat where "c = 2 ^ 53"
  have A0: "0 < A" and B0: "0 < B" using a b by (simp_all add: A_def B_def)
  have c0: "0 < c" by (simp add: c_def)
  have q0: "0 < q" unfolding q_def by (rule double_div_pos(2) [OF a b])
  have err: "\<bar>q - A / B\<bar> \<le> A / B / c"
    unfolding q_def A_def B_def c_def by (rule double_div_pos(1) [OF a b])
  have nb: "N \<le> q * 100 + 1 / 2" "q * 100 + 1 / 2 < N + 1"
    unfolding N_def n_def using toFixed_n_bounds [of q] q0 by simp_all
  have "(of_int (200 * a) :: rat) < of_int (2 ^ 53)"
    using small by (simp only: of_int_less_iff)
  then have sm: "200 * A < c" by (simp add: A_def c_def)
  define u where "u = q * B"
  have qu: "q = u / B" using B0 by (simp add: u_def)
  have e1: "u - A \<le> A / c" and e2: "A - u \<le> A / c"
  proof -
    have "u - A = (q - A / B) * B" using B0 by (simp add: u_def field_simps)
    then have "\<bar>u - A\<bar> = \<bar>q - A / B\<bar> * B" using B0 by (simp add: abs_mult)
    also have "\<dots> \<le> (A / B / c) * B" using err B0 by (intro mult_right_mono) simp_all
    also have "\<dots> = A / c" using B0 by simp
    finally have "\<bar>u - A\<bar> \<le> A / c" .
    then show "u - A \<le> A / c" "A - u \<le> A / c" by linarith+
  qed
  have Ac: "200 * (A / c) < 1" using sm c0 by (simp add: field_simps)
  have upper: "100 * (A / B) \<le> N + 1 / 2"
  proof (rule ccontr)
    assume "\<not> 100 * (A / B) \<le> N + 1 / 2"
    then have "N + 1 / 2 < 100 * A / B" by simp
    then have "(2 * N + 1) * B < 200 * A" using B0 by (simp add: field_simps)
    then have "(of_int ((2 * int n + 1) * b) :: rat) < of_int (200 * a)"
      by (simp add: N_def A_def B_def)
    then have "(2 * int n + 1) * b < 200 * a" by (simp only: of_int_less_iff)
    then have "(2 * int n + 1) * b + 1 \<le> 200 * a" by simp
    then have "(of_int ((2 * int n + 1) * b + 1) :: rat) \<le> of_int (200 * a)"
      by (simp only: of_int_le_iff)
    then have i1: "(2 * N + 1) * B + 1 \<le> 200 * A" by (simp add: N_def A_def B_def)
    from nb(2) have "u / B * 100 + 1 / 2 < N + 1" by (simp add: qu)
    then have "200 * u < (2 * N + 1) * B" using B0 by (simp add: field_simps)
    with i1 e2 Ac show False by linarith
  qed
  have lower: "N - 1 / 2 \<le> 100 * (A / B)"
  proof (rule ccontr)
    assume "\<not> N - 1 / 2 \<le> 100 * (A / B)"
    then have "100 * A / B < N - 1 / 2" by simp
    then have "200 * A < (2 * N - 1) * B" using B0 by (simp add: field_simps)
    then have "(of_int (200 * a) :: rat) < of_int ((2 * int n - 1) * b)"
      by (simp add: N_def A_def B_def)
    then have "200 * a < (2 * int n - 1) * b" by (simp only: of_int_less_iff)
    then have "200 * a + 1 \<le> (2 * int n - 1) * b" by simp
    then have "(of_int (200 * a + 1) :: rat) \<le> of_int ((2 * int n - 1) * b)"
      by (simp only: of_int_le_iff)
    then have i1: "200 * A + 1 \<le> (2 * N - 1) * B" by (simp add: N_def A_def B_def)
    from nb(1) have "N \<le> u / B * 100 + 1 / 2" by (simp add: qu)
    then have "(2 * N - 1) * B \<le> 200 * u" using B0 by (simp add: field_simps)
    with i1 e1 Ac show False by linarith
  qed
  from upper lower have "\<bar>N - 100 * (A / B)\<bar> \<le> 1 / 2" by linarith
  then show ?thesis by (simp add: N_def n_def q_def A_def B_def)
qed

lemma toFixed_n_zero: "toFixed_n 2 0 = 0"
  by (simp add: toFixed_n_def)

lemma double_div_zero: "double_div 0 b = 0"
  by (simp add: double_div_def)

lemma mean_nearest:
  fixes a b :: int
  assumes b: "0 < b" and small: "200 * \<bar>a\<bar> < 2 ^ 53"
  shows "\<bar>of_nat (toFixed_n 2 \<bar>double_div a b\<bar>) / 100 - \<bar>of_int a / of_int b\<bar>\<bar> \<le> (1 / 200 :: rat)"
    and "double_div a b < 0 \<longleftrightarrow> a < 0"
proof -
  have B0: "(0::rat) < of_int b" using b by simp
  consider "0 < a" | "a = 0" | "a < 0" by linarith
  then have "\<bar>of_nat (toFixed_n 2 \<bar>double_div a b\<bar>) - 100 * \<bar>of_int a / of_int b\<bar>\<bar> \<le> (1 / 2 :: rat)
      \<and> (double_div a b < 0 \<longleftrightarrow> a < 0)"
  proof cases
    case 1
    with small have s: "200 * a < 2 ^ 53" by simp
    from double_div_pos(2) [OF 1 b] have p: "0 < double_div a b" .
    have "\<bar>of_int a / of_int b\<bar> = (of_int a / of_int b :: rat)"
      using 1 B0 by simp
    with mean_nearest_pos [OF 1 b s] p 1 show ?thesis by simp
  next
    case 2
    then show ?thesis by (simp add: double_div_zero toFixed_n_zero)
  next
    case 3
    then have pa: "0 < - a" by simp
    with small 3 have s: "200 * (- a) < 2 ^ 53" by simp
    from double_div_pos(2) [OF pa b] have p: "0 < double_div (- a) b" .
    have dd: "double_div a b = - double_div (- a) b"
      using double_div_uminus [of "- a" b] by simp
    have "\<bar>of_int a / of_int b\<bar> = (of_int (- a) / of_int b :: rat)"
      using 3 B0 by (simp add: abs_divide)
    with mean_nearest_pos [OF pa b s] p 3 dd show ?thesis by simp
  qed
  then have main: "\<bar>of_nat (toFixed_n 2 \<bar>double_div a b\<bar>) - 100 * \<bar>of_int a / of_int b\<bar>\<bar> \<le> (1 / 2 :: rat)"
    and sgn: "double_div a b < 0 \<longleftrightarrow> a < 0" by blast+
  define N :: rat where "N = of_nat (toFixed_n 2 \<bar>double_div a b\<bar>)"
  define m :: rat where "m = \<bar>of_int a / of_int b\<bar>"
  from main have "\<bar>N - 100 * m\<bar> \<le> 1 / 2" by (simp only: N_def m_def)
  then have "\<bar>N / 100 - m\<bar> \<le> 1 / 200" by linarith
  then show "\<bar>of_nat (toFixed_n 2 \<bar>double_div a b\<bar>) / 100 - \<bar>of_int a / of_int b\<bar>\<bar> \<le> (1 / 200 :: rat)"
    by (simp only: N_def m_def)
  from sgn show "double_div a b < 0 \<longleftrightarrow> a < 0" .
qed

lemma foldl_score_sum:
  "foldl (\<lambda>acc h. acc + score h) z hs = z + sum_list (map score hs)"
  by (induction hs arbitrary: z) simp_all

lemma relevantHistory_first_match:
  "relevantHistory course hole =
     concat (map (\<lambda>r. take 1 (filter (\<lambda>h. perf_holeNumber h = holeNumber hole) (holeByHole r)))
                 (roundHistory course))"
proof -
  have f: "\<And>p (xs :: HolePerformance list).
      (case find_first p xs of None \<Rightarrow> [] | Some h \<Rightarrow> [h]) = take 1 (filter p xs)"
  proof -
    fix p and xs :: "HolePerformance list"
    show "(case find_first p xs of None \<Rightarrow> [] | Some h \<Rightarrow> [h]) = take 1 (filter p xs)"
      by (induction xs) simp_all
  qed
  show ?thesis
    unfolding relevantHistory_def Let_def
    by (simp add: f comp_def)
qed

lemma digits_nonempty: "digits n \<noteq> []"
  by (subst digits.simps) simp

lemma digits_small: "n < 10 \<Longrightarrow> digits n = [digit_char n]"
  by (subst digits.simps) simp

lemma digits_step: "10 \<le> n \<Longrightarrow> digits n = digits (n div 10) @ [digit_char (n mod 10)]"
  by (subst digits.simps) simp

lemma toFixed_digits_two:
  "toFixed_digits 2 negative n =
     (if negative then ''-'' else []) @ digits (n div 100) @ ''.'' @
     [digit_char (n div 10 mod 10), digit_char (n mod 10)]"
proof -
  consider "n < 10" | "10 \<le> n" "n < 100" | "100 \<le> n" by linarith
  then show ?thesis
  proof cases
    case 1
    then have "digits n = [digit_char n]" "n div 100 = 0" "n div 10 = 0" "n mod 10 = n"
      by (simp_all add: digits_small)
    then show ?thesis
      by (simp add: toFixed_digits_def Let_def digits_small digit_char_def numeral_2_eq_2)
  next
    case 2
    then have d: "digits n = [digit_char (n div 10), digit_char (n mod 10)]"
      by (simp add: digits_step digits_small)
    from 2 have "n div 100 = 0" "n div 10 mod 10 = n div 10" by simp_all
    with d show ?thesis
      by (simp add: toFixed_digits_def Let_def digits_small digit_char_def numeral_2_eq_2)
  next
    case 3
    then have t: "10 \<le> n div 10" by simp
    have e: "n div 10 div 10 = n div 100" by (simp add: div_mult2_eq)
    from 3 t have d: "digits n = digits (n div 100) @ [digit_char (n div 10 mod 10), digit_char (n mod 10)]"
      by (simp add: digits_step [of n] digits_step [of "n div 10"] e)
    have "digits (n div 100) \<noteq> []" by (rule digits_nonempty)
    then have l: "0 < length (digits (n div 100))" by simp
    show ?thesis
      using l by (simp add: toFixed_digits_def Let_def d)
  qed
qed

lemma first_match_unique:
  "\<forall>r \<in> set rs. length (filter p (holeByHole r)) \<le> 1 \<Longrightarrow>
   concat (map (\<lambda>r. take 1 (filter p (holeByHole r))) rs) = filter p (concat (map holeByHole rs))"
  by (induction rs) simp_all

subsection \<open>What the summary collects and reports\<close>

text \<open>
  C3, as stated, fails: the summary does not collect every entry with the hole's number.
  In a round that lists hole 7 twice, with scores 5 and 3, two entries match; the
  history holds only the first and the summary reports one play with average 5.00.
\<close>

theorem history_counts_first_match_only:
  "filter (\<lambda>h. perf_holeNumber h = 7) (concat (map holeByHole (roundHistory replayed_course)))
     = [\<lparr>perf_holeNumber = 7, score = 5\<rparr>, \<lparr>perf_holeNumber = 7, score = 3\<rparr>] \<and>
   relevantHistory replayed_course sample_hole = [\<lparr>perf_holeNumber = 7, score = 5\<rparr>] \<and>
   historySummary (relevantHistory replayed_course sample_hole)
     = ''Player has played this hole 1 times with an average score of 5.00.''"
proof -
  have a: "filter (\<lambda>h. perf_holeNumber h = 7) (concat (map holeByHole (roundHistory replayed_course)))
     = [\<lparr>perf_holeNumber = 7, score = 5\<rparr>, \<lparr>perf_holeNumber = 7, score = 3\<rparr>]"
    by (simp add: replayed_course_def replayed_round_def)
  have b: "relevantHistory replayed_course sample_hole = [\<lparr>perf_holeNumber = 7, score = 5\<rparr>]"
    by (simp add: relevantHistory_def replayed_course_def replayed_round_def sample_hole_def)
  have c: "historySummary [\<lparr>perf_holeNumber = 7, score = 5\<rparr>]
     = ''Player has played this hole 1 times with an average score of 5.00.''"
    by code_simp
  from a b c show ?thesis by simp
qed

text \<open>
  C3, amended. The history holds, for every round in order, the first entry of the
  round with the hole's number; when no round lists the hole twice these are exactly the
  entries with that number. With no entry the summary is the fixed sentence for no
  history. With \<open>n > 0\<close> entries, whose scores are integers with absolute values summing
  to less than \<open>2\<^sup>5\<^sup>3 / 200\<close>, the summary gives the count \<open>n\<close> and the mean with two
  decimals: a sign, the digits of a number of hundredths, the point before the last two,
  that number of hundredths being within half a hundredth of the magnitude of the mean.
\<close>

theorem history_summary_first_match:
  fixes course :: Course and currentHole :: Hole
  defines "matches \<equiv> (\<lambda>h. perf_holeNumber h = holeNumber currentHole)"
  defines "relevant \<equiv> relevantHistory course currentHole"
  defines "scores \<equiv> sum_list (map score relevant)"
  defines "n \<equiv> toFixed_n 2 \<bar>double_div scores (int (length relevant))\<bar>"
  shows
    "relevant = concat (map (\<lambda>r. take 1 (filter matches (holeByHole r))) (roundHistory course)) \<and>
     ((\<forall>r \<in> set (roundHistory course). length (filter matches (holeByHole r)) \<le> 1) \<longrightarrow>
        relevant = filter matches (concat (map holeByHole (roundHistory course)))) \<and>
     (relevant = [] \<longrightarrow> historySummary relevant = ''No previous history on this hole.'') \<and>
     (relevant \<noteq> [] \<and> 200 * sum_list (map (\<lambda>h. \<bar>score h\<bar>) relevant) < 2 ^ 53 \<longrightarrow>
        historySummary relevant =
          ''Player has played this hole '' @ digits (length relevant) @
          '' times with an average score of '' @
          (if scores < 0 then ''-'' else []) @ digits (n div 100) @ ''.'' @
          [digit_char (n div 10 mod 10), digit_char (n mod 10)] @ ''.'' \<and>
        \<bar>of_nat n / 100 - \<bar>of_int scores / of_nat (length relevant)\<bar>\<bar> \<le> (1 / 200 :: rat))"
proof (intro conjI impI)
  show first: "relevant = concat (map (\<lambda>r. take 1 (filter matches (holeByHole r))) (roundHistory course))"
    unfolding relevant_def matches_def by (rule relevantHistory_first_match)
  show "relevant = filter matches (concat (map holeByHole (roundHistory course)))"
    if "\<forall>r \<in> set (roundHistory course). length (filter matches (holeByHole r)) \<le> 1"
    using that first by (simp only: first_match_unique)
  show "historySummary relevant = ''No previous history on this hole.''" if "relevant = []"
    using that by (simp add: historySummary_def)
next
  assume h: "relevant \<noteq> [] \<and> 200 * sum_list (map (\<lambda>h. \<bar>score h\<bar>) relevant) < 2 ^ 53"
  then have len: "0 < int (length relevant)" by simp
  have "\<bar>scores\<bar> \<le> sum_list (map (\<lambda>h. \<bar>score h\<bar>) relevant)"
    unfolding scores_def by (induction relevant) auto
  with h have small: "200 * \<bar>scores\<bar> < 2 ^ 53" by linarith
  have sgn: "double_div scores (int (length relevant)) < 0 \<longleftrightarrow> scores < 0"
    by (rule mean_nearest(2) [OF len small])
  show "historySummary relevant =
          ''Player has played this hole '' @ digits (length relevant) @
          '' times with an average score of '' @
          (if scores < 0 then ''-'' else []) @ digits (n div 100) @ ''.'' @
          [digit_char (n div 10 mod 10), digit_char (n mod 10)] @ ''.''"
    using h sgn
    by (simp add: historySummary_def Let_def foldl_score_sum toFixed_def toFixed_digits_two
        scores_def n_def)
  from mean_nearest(1) [OF len small]
  show "\<bar>of_nat n / 100 - \<bar>of_int scores / of_nat (length relevant)\<bar>\<bar> \<le> (1 / 200 :: rat)"
    by (simp add: n_def)
qed

theorem history_summary_first_match_witness:
  "relevantHistory sample_course sample_hole
     = [\<lparr>perf_holeNumber = 7, score = 5\<rparr>, \<lparr>perf_holeNumber = 7, score = 3\<rparr>] \<and>
   map (\<lambda>r. length (filter (\<lambda>h. perf_holeNumber h = 7) (holeByHole r))) (roundHistory sample_course)
     = [1, 1] \<and>
   200 * sum_list (map (\<lambda>h. \<bar>score h\<bar>) (relevantHistory sample_course sample_hole)) < (2::int) ^ 53 \<and>
   historySummary (relevantHistory sample_course sample_hole)
     = ''Player has played this hole 2 times with an average score of 4.00.''"
proof -
  have rel: "relevantHistory sample_course sample_hole
     = [\<lparr>perf_holeNumber = 7, score = 5\<rparr>, \<lparr>perf_holeNumber = 7, score = 3\<rparr>]"
    by (simp add: relevantHistory_def sample_course_def sample_round1_def sample_round2_def
        sample_hole_def)
  have cnt: "map (\<lambda>r. length (filter (\<lambda>h. perf_holeNumber h = 7) (holeByHole r)))
      (roundHistory sample_course) = [1, 1]"
    by (simp add: sample_course_def sample_round1_def sample_round2_def)
  have small: "200 * sum_list (map (\<lambda>h. \<bar>score h\<bar>) (relevantHistory sample_course sample_hole))
      < (2::int) ^ 53"
    by (simp add: rel)
  have n: "toFixed_n 2 \<bar>double_div 8 2\<bar> = 400" by code_simp
  have d: "digits (Suc (Suc 0)) = ''2''" "digits 4 = ''4''" "digit_char 0 = CHR ''0''"
    by code_simp+
  note t = history_summary_first_match [of sample_course sample_hole,
      THEN conjunct2, THEN conjunct2, THEN conjunct2, unfolded rel]
  from t small [unfolded rel]
  have "historySummary (relevantHistory sample_course sample_hole)
     = ''Player has played this hole 2 times with an average score of 4.00.''"
    by (simp add: rel n d)
  with rel cnt small show ?thesis by blast
qed

end
